theory Spec2Isabelle
  imports Main
begin

section \<open>Auto-hide dock container (src/AutoHideDockContainer.cpp)\<close>

text \<open>
  A shallow embedding of \<^verbatim>\<open>CAutoHideDockContainer\<close> and of its private data
  \<^verbatim>\<open>AutoHideDockContainerPrivate\<close>. The object is a record: the fields of its
  \<^verbatim>\<open>QWidget\<close> base part, then the fields of the pimpl struct \<^verbatim>\<open>d\<close>. Every member
  function takes the object and returns the updated object. Pointers that the source
  tests against null are \<open>option\<close> values, and a dereference of such a pointer without a
  test is the error \<open>NullPointer\<close>. A call of \<^verbatim>\<open>hide()\<close>, \<^verbatim>\<open>show()\<close> or \<^verbatim>\<open>resize()\<close> on the
  container runs, before it returns, the event handlers that this class overrides
  (\<^verbatim>\<open>event\<close>, \<^verbatim>\<open>resizeEvent\<close>), as the toolkit does. Coordinates are C \<^verbatim>\<open>int\<close>s: they are
  modelled as \<open>int\<close>, and the subtractions that this file writes are taken modulo
  \<open>2 ^ 32\<close> (\<open>int32\<close>).
\<close>

subsection \<open>Toolkit value types: QPoint, QSize, QRect\<close>

text \<open>The value of an \<^verbatim>\<open>int\<close> computation: two's complement on 32 bits.\<close>

definition int32 :: "int \<Rightarrow> int" where
  "int32 x = (x + 2147483648) mod 4294967296 - 2147483648"


record QPoint =
  xp :: int
  yp :: int

record QSize =
  width :: int
  height :: int

text \<open>\<^verbatim>\<open>QRect\<close> stores its two corners; width and height are derived.\<close>

record QRect =
  rx1 :: int
  ry1 :: int
  rx2 :: int
  ry2 :: int

definition rect_width :: "QRect \<Rightarrow> int" where
  "rect_width r = rx2 r - rx1 r + 1"

definition rect_height :: "QRect \<Rightarrow> int" where
  "rect_height r = ry2 r - ry1 r + 1"

definition topLeft :: "QRect \<Rightarrow> QPoint" where
  "topLeft r = \<lparr>xp = rx1 r, yp = ry1 r\<rparr>"

definition topRight :: "QRect \<Rightarrow> QPoint" where
  "topRight r = \<lparr>xp = rx2 r, yp = ry1 r\<rparr>"

definition bottomLeft :: "QRect \<Rightarrow> QPoint" where
  "bottomLeft r = \<lparr>xp = rx1 r, yp = ry2 r\<rparr>"

text \<open>\<^verbatim>\<open>QRect::contains(p)\<close>, with the corner swap it makes for a rectangle of negative extent.\<close>

definition rect_contains :: "QRect \<Rightarrow> QPoint \<Rightarrow> bool" where
  "rect_contains r p =
     (let l = (if rx2 r < rx1 r - 1 then rx2 r else rx1 r);
          rr = (if rx2 r < rx1 r - 1 then rx1 r else rx2 r);
          t = (if ry2 r < ry1 r - 1 then ry2 r else ry1 r);
          b = (if ry2 r < ry1 r - 1 then ry1 r else ry2 r)
      in \<not> (xp p < l \<or> xp p > rr) \<and> \<not> (yp p < t \<or> yp p > b))"

definition QSize_plus :: "QSize \<Rightarrow> QSize \<Rightarrow> QSize" where
  "QSize_plus a b = \<lparr>width = width a + width b, height = height a + height b\<rparr>"

definition QPoint_minus :: "QPoint \<Rightarrow> QPoint \<Rightarrow> QPoint" where
  "QPoint_minus a b = \<lparr>xp = xp a - xp b, yp = yp a - yp b\<rparr>"

definition boundedTo :: "QSize \<Rightarrow> QSize \<Rightarrow> QSize" where
  "boundedTo s other = \<lparr>width = min (width s) (width other), height = min (height s) (height other)\<rparr>"

definition expandedTo :: "QSize \<Rightarrow> QSize \<Rightarrow> QSize" where
  "expandedTo s other = \<lparr>width = max (width s) (width other), height = max (height s) (height other)\<rparr>"

subsection \<open>Enumerations\<close>

datatype SideBarLocation = SideBarTop | SideBarLeft | SideBarRight | SideBarBottom | SideBarNone

datatype Edge = TopEdge | LeftEdge | RightEdge | BottomEdge

datatype Orientation = Horizontal | Vertical

datatype Direction = LeftToRight | TopToBottom

datatype error = NullPointer

text \<open>
  The events this file looks at: the types tested in \<^verbatim>\<open>eventFilter\<close> (a mouse button
  press carries its global position) and in \<^verbatim>\<open>event\<close>, and \<^verbatim>\<open>Leave\<close>, which reaches
  \<^verbatim>\<open>leaveEvent\<close>.
\<close>

datatype QEvent =
    Resize
  | MouseButtonPress QPoint
  | NonClientAreaMouseButtonPress
  | FloatingWidgetDragStartEvent
  | Enter
  | Hide
  | Leave
  | OtherEvent

subsection \<open>The QWidget base part\<close>

text \<open>
  What the member functions use of a widget: the hide flag set by \<^verbatim>\<open>hide()\<close> and cleared
  by \<^verbatim>\<open>show()\<close> (a new widget is hidden), whether all ancestors are visible
  (\<^verbatim>\<open>isVisible()\<close> is true only for a shown widget below visible ancestors), the position
  in the parent and the size, the size limits that \<^verbatim>\<open>resize()\<close> respects, the global
  position of the parent's origin (for \<^verbatim>\<open>mapFromGlobal\<close>), the object name, and whether
  a resize event is still owed to the widget: a widget resized while it is not visible
  receives its resize event when it is shown.
\<close>

record QWidget =
  hidden :: bool
  ancestorsVisible :: bool
  geo_pos :: QPoint
  geo_size :: QSize
  minimumSize :: QSize
  maximumSize :: QSize
  parentOrigin :: QPoint
  objectName :: string
  pendingResizeEvent :: bool

text \<open>The state changes of \<^verbatim>\<open>hide()\<close> and \<^verbatim>\<open>show()\<close>, without the events they send.\<close>

definition QWidget_hide :: "'a QWidget_scheme \<Rightarrow> 'a QWidget_scheme" where
  "QWidget_hide w = w\<lparr>hidden := True\<rparr>"

definition QWidget_show :: "'a QWidget_scheme \<Rightarrow> 'a QWidget_scheme" where
  "QWidget_show w =
     w\<lparr>hidden := False,
       pendingResizeEvent := (pendingResizeEvent w \<and> \<not> (hidden w \<and> ancestorsVisible w))\<rparr>"

definition isVisible :: "'a QWidget_scheme \<Rightarrow> bool" where
  "isVisible w = (\<not> hidden w \<and> ancestorsVisible w)"

text \<open>The size a widget takes when \<^verbatim>\<open>resize(s)\<close> is called: \<open>s\<close> inside the size limits.\<close>

definition adjustedSize :: "'a QWidget_scheme \<Rightarrow> QSize \<Rightarrow> QSize" where
  "adjustedSize w s = expandedTo (boundedTo s (maximumSize w)) (minimumSize w)"

text \<open>
  The state change of \<^verbatim>\<open>resize()\<close>, without the event: the new size; a widget that is
  not visible and changes its size is owed a resize event.
\<close>

definition QWidget_resize :: "int \<Rightarrow> int \<Rightarrow> 'a QWidget_scheme \<Rightarrow> 'a QWidget_scheme" where
  "QWidget_resize wd ht w =
     (let s = adjustedSize w \<lparr>width = wd, height = ht\<rparr>
      in w\<lparr>geo_size := s,
           pendingResizeEvent := (pendingResizeEvent w \<or> (s \<noteq> geo_size w \<and> \<not> isVisible w))\<rparr>)"

definition QWidget_move :: "QPoint \<Rightarrow> 'a QWidget_scheme \<Rightarrow> 'a QWidget_scheme" where
  "QWidget_move p w = w\<lparr>geo_pos := p\<rparr>"

definition QWidget_rect :: "'a QWidget_scheme \<Rightarrow> QRect" where
  "QWidget_rect w = \<lparr>rx1 = 0, ry1 = 0, rx2 = width (geo_size w) - 1, ry2 = height (geo_size w) - 1\<rparr>"

definition mapFromGlobal :: "'a QWidget_scheme \<Rightarrow> QPoint \<Rightarrow> QPoint" where
  "mapFromGlobal w g = QPoint_minus (QPoint_minus g (parentOrigin w)) (geo_pos w)"

subsection \<open>Collaborating objects\<close>

text \<open>
  The classes \<^verbatim>\<open>CDockContainerWidget\<close>, \<^verbatim>\<open>CDockAreaWidget\<close>, \<^verbatim>\<open>CDockWidget\<close>,
  \<^verbatim>\<open>CResizeHandle\<close> and \<^verbatim>\<open>CAutoHideTab\<close> are implemented in other files. A record of
  such an object holds the values its getters return where this file reads them; every
  call this file makes to one of their other member functions is appended to the
  \<open>trace\<close> of the container, in program order.
\<close>

record CDockContainerWidget =
  container_id :: nat
  contentRect :: QRect

record CDockAreaWidget =
  area_id :: nat
  area_size :: QSize
  area_dockContainer :: "CDockContainerWidget option"

record CDockWidget =
  dw_objectName :: string
  isClosed :: bool
  dockAreaWidget :: "CDockAreaWidget option"
  isRestoringState :: bool

record CResizeHandle =
  handlePosition :: Edge
  orientation :: Orientation
  isResizing :: bool

datatype layoutItem = Item_DockArea | Item_ResizeHandle

record QBoxLayout =
  direction :: Direction
  contentsMargins :: "int \<times> int \<times> int \<times> int"
  spacing :: int
  items :: "layoutItem list"

definition insertWidget :: "int \<Rightarrow> layoutItem \<Rightarrow> QBoxLayout \<Rightarrow> QBoxLayout" where
  "insertWidget index it l =
     (if index < 0 then l\<lparr>items := items l @ [it]\<rparr>
      else l\<lparr>items := take (nat index) (items l) @ [it] @ drop (nat index) (items l)\<rparr>)"

definition addWidget :: "layoutItem \<Rightarrow> QBoxLayout \<Rightarrow> QBoxLayout" where
  "addWidget it l = insertWidget (-1) it l"

datatype slot = Slot_toggleCollapseState

datatype call =
    DockArea_setObjectName string
  | DockArea_setAutoHideDockContainer
  | DockArea_removeDockWidget CDockAreaWidget CDockWidget
  | DockArea_addDockWidget CDockAreaWidget CDockWidget
  | SideTab_setDockWidget CDockWidget
  | SideTab_updateStyle
  | ResizeHandle_setMinResizeSize int
  | ResizeHandle_setMaxResizeSize int
  | ResizeHandle_setOpaqueResize bool
  | DockManager_setDockWidgetFocused CDockWidget
  | DockContainer_registerAutoHideWidget CDockContainerWidget
  | DockContainer_handleAutoHideWidgetEvent CDockContainerWidget QEvent
  | Widget_raise

subsection \<open>The container object\<close>

text \<open>
  The fields of \<^verbatim>\<open>AutoHideDockContainerPrivate\<close> keep their names. \<open>findParent\<close> is the
  result of \<^verbatim>\<open>internal::findParent<CDockContainerWidget*>(this)\<close>,
  \<open>eventFilterInstalled\<close> says whether \<^verbatim>\<open>qApp\<close> holds this object as an event filter,
  and \<open>pressedSlots\<close> are the slots of this object connected to the \<^verbatim>\<open>pressed\<close> signal
  of the side tab.
\<close>

record CAutoHideDockContainer = QWidget +
  DockArea :: "CDockAreaWidget option"
  DockWidget :: "CDockWidget option"
  SideTabBarArea :: SideBarLocation
  Layout :: QBoxLayout
  ResizeHandle :: CResizeHandle
  Size :: QSize
  SideTab :: "QWidget option"
  findParent :: "CDockContainerWidget option"
  eventFilterInstalled :: bool
  pressedSlots :: "slot list"
  trace :: "call list"

definition ResizeMargin :: int where
  "ResizeMargin = 30"

fun isHorizontalArea :: "SideBarLocation \<Rightarrow> bool" where
  "isHorizontalArea SideBarTop = True"
| "isHorizontalArea SideBarBottom = True"
| "isHorizontalArea SideBarLeft = False"
| "isHorizontalArea SideBarRight = False"
| "isHorizontalArea _ = True"

fun edgeFromSideTabBarArea :: "SideBarLocation \<Rightarrow> Edge" where
  "edgeFromSideTabBarArea SideBarTop = BottomEdge"
| "edgeFromSideTabBarArea SideBarBottom = TopEdge"
| "edgeFromSideTabBarArea SideBarLeft = RightEdge"
| "edgeFromSideTabBarArea SideBarRight = LeftEdge"
| "edgeFromSideTabBarArea _ = LeftEdge"

fun resizeHandleLayoutPosition :: "SideBarLocation \<Rightarrow> int" where
  "resizeHandleLayoutPosition SideBarBottom = 0"
| "resizeHandleLayoutPosition SideBarRight = 0"
| "resizeHandleLayoutPosition SideBarTop = 1"
| "resizeHandleLayoutPosition SideBarLeft = 1"
| "resizeHandleLayoutPosition _ = 0"

definition isHorizontal :: "CAutoHideDockContainer \<Rightarrow> bool" where
  "isHorizontal c = isHorizontalArea (SideTabBarArea c)"

definition dockContainer :: "CAutoHideDockContainer \<Rightarrow> CDockContainerWidget option" where
  "dockContainer c =
     (case DockArea c of
        Some a \<Rightarrow> area_dockContainer a
      | None \<Rightarrow> findParent c)"

definition sideBarLocation :: "CAutoHideDockContainer \<Rightarrow> SideBarLocation" where
  "sideBarLocation c = SideTabBarArea c"

definition logCall :: "call \<Rightarrow> CAutoHideDockContainer \<Rightarrow> CAutoHideDockContainer" where
  "logCall x c = c\<lparr>trace := trace c @ [x]\<rparr>"

definition installEventFilter :: "CAutoHideDockContainer \<Rightarrow> CAutoHideDockContainer" where
  "installEventFilter c = c\<lparr>eventFilterInstalled := True\<rparr>"

definition removeEventFilter :: "CAutoHideDockContainer \<Rightarrow> CAutoHideDockContainer" where
  "removeEventFilter c = c\<lparr>eventFilterInstalled := False\<rparr>"

definition updateResizeHandleSizeLimitMax ::
  "CAutoHideDockContainer \<Rightarrow> error + CAutoHideDockContainer" where
  "updateResizeHandleSizeLimitMax c =
     (case dockContainer c of
        None \<Rightarrow> Inl NullPointer
      | Some k \<Rightarrow>
          (let Rect = contentRect k;
               maxResizeHandleSize =
                 (if orientation (ResizeHandle c) = Horizontal then rect_width Rect
                  else rect_height Rect)
           in Inr (logCall (ResizeHandle_setMaxResizeSize
                              (int32 (maxResizeHandleSize - ResizeMargin))) c)))"

definition forwardEventToDockContainer ::
  "QEvent \<Rightarrow> CAutoHideDockContainer \<Rightarrow> CAutoHideDockContainer" where
  "forwardEventToDockContainer ev c =
     (case dockContainer c of
        Some DockContainer \<Rightarrow> logCall (DockContainer_handleAutoHideWidgetEvent DockContainer ev) c
      | None \<Rightarrow> c)"

subsection \<open>The event handlers the class overrides\<close>

text \<open>\<^verbatim>\<open>event\<close> (lines 579-593); the state after \<^verbatim>\<open>Super::event\<close>, which changes none of it.\<close>

definition event :: "QEvent \<Rightarrow> CAutoHideDockContainer \<Rightarrow> CAutoHideDockContainer" where
  "event ev c =
     (case ev of
        Enter \<Rightarrow> forwardEventToDockContainer ev c
      | Hide \<Rightarrow> forwardEventToDockContainer ev c
      | _ \<Rightarrow> c)"

text \<open>\<^verbatim>\<open>resizeEvent\<close> (lines 552-560).\<close>

definition resizeEvent :: "CAutoHideDockContainer \<Rightarrow> error + CAutoHideDockContainer" where
  "resizeEvent c =
     (if isResizing (ResizeHandle c)
      then updateResizeHandleSizeLimitMax (c\<lparr>Size := geo_size c\<rparr>)
      else Inr c)"

text \<open>\<^verbatim>\<open>leaveEvent\<close> (lines 564-575); the argument is \<^verbatim>\<open>QCursor::pos()\<close>.\<close>

definition leaveEvent :: "QPoint \<Rightarrow> CAutoHideDockContainer \<Rightarrow> CAutoHideDockContainer" where
  "leaveEvent cursor c =
     (if \<not> rect_contains (QWidget_rect c) (mapFromGlobal c cursor)
      then forwardEventToDockContainer Leave c
      else c)"

subsection \<open>hide, show and resize on the container\<close>

text \<open>
  The toolkit sends a hide event to a widget that \<^verbatim>\<open>hide()\<close> has just hidden (none to a
  widget that was hidden already), a resize event to a visible widget whose size
  \<^verbatim>\<open>resize()\<close> has just changed, and the resize event it still owes to a widget that
  \<^verbatim>\<open>show()\<close> makes visible. Each is handled before the call returns, by the handlers
  above. While the event filter of this object is installed, such an event first passes
  through \<open>eventFilter\<close> below; the only one it acts on is the resize event, for which it
  runs \<open>updateSize\<close> once more unless the handle is resizing, and that second run finds
  the size already set and moves the widget to the position the first run moves it to.
\<close>

definition hideContainer :: "CAutoHideDockContainer \<Rightarrow> CAutoHideDockContainer" where
  "hideContainer c = (if hidden c then c else event Hide (QWidget_hide c))"

definition showContainer :: "CAutoHideDockContainer \<Rightarrow> error + CAutoHideDockContainer" where
  "showContainer c =
     (if hidden c \<and> ancestorsVisible c \<and> pendingResizeEvent c
      then resizeEvent (QWidget_show c)
      else Inr (QWidget_show c))"

definition resizeContainer ::
  "int \<Rightarrow> int \<Rightarrow> CAutoHideDockContainer \<Rightarrow> error + CAutoHideDockContainer" where
  "resizeContainer wd ht c =
     (if isVisible c \<and> adjustedSize c \<lparr>width = wd, height = ht\<rparr> \<noteq> geo_size c
      then resizeEvent (QWidget_resize wd ht c)
      else Inr (QWidget_resize wd ht c))"

subsection \<open>Member functions\<close>

definition updateSize :: "CAutoHideDockContainer \<Rightarrow> error + CAutoHideDockContainer" where
  "updateSize c =
     (case dockContainer c of
        None \<Rightarrow> Inr c
      | Some dockContainerParent \<Rightarrow>
          (let rect = contentRect dockContainerParent in
           case sideBarLocation c of
             SideBarTop \<Rightarrow>
               (case resizeContainer (rect_width rect)
                       (min (int32 (rect_height rect - ResizeMargin)) (height (Size c))) c of
                  Inl e \<Rightarrow> Inl e
                | Inr c1 \<Rightarrow> Inr (QWidget_move (topLeft rect) c1))
           | SideBarLeft \<Rightarrow>
               (case resizeContainer (min (width (Size c)) (int32 (rect_width rect - ResizeMargin)))
                       (rect_height rect) c of
                  Inl e \<Rightarrow> Inl e
                | Inr c1 \<Rightarrow> Inr (QWidget_move (topLeft rect) c1))
           | SideBarRight \<Rightarrow>
               (case resizeContainer (min (width (Size c)) (int32 (rect_width rect - ResizeMargin)))
                       (rect_height rect) c of
                  Inl e \<Rightarrow> Inl e
                | Inr c1 \<Rightarrow>
                    (let p = topRight rect;
                         p = p\<lparr>xp := int32 (xp p - int32 (width (geo_size c1) - 1))\<rparr>
                     in Inr (QWidget_move p c1)))
           | SideBarBottom \<Rightarrow>
               (case resizeContainer (rect_width rect)
                       (min (int32 (rect_height rect - ResizeMargin)) (height (Size c))) c of
                  Inl e \<Rightarrow> Inl e
                | Inr c1 \<Rightarrow>
                    (let p = bottomLeft rect;
                         p = p\<lparr>yp := int32 (yp p - int32 (height (geo_size c1) - 1))\<rparr>
                     in Inr (QWidget_move p c1)))
           | SideBarNone \<Rightarrow> Inr c))"


definition SideTab_call :: "call \<Rightarrow> CAutoHideDockContainer \<Rightarrow> error + CAutoHideDockContainer" where
  "SideTab_call x c = (case SideTab c of None \<Rightarrow> Inl NullPointer | Some t \<Rightarrow> Inr (logCall x c))"

definition addDockWidget ::
  "CDockWidget \<Rightarrow> CAutoHideDockContainer \<Rightarrow> error + CAutoHideDockContainer" where
  "addDockWidget w c =
     (case (case DockWidget c of
              None \<Rightarrow> Inr c
            | Some old \<Rightarrow>
                (case DockArea c of
                   None \<Rightarrow> Inl NullPointer
                 | Some a \<Rightarrow> Inr (logCall (DockArea_removeDockWidget a old) c))) of
        Inl e \<Rightarrow> Inl e
      | Inr c1 \<Rightarrow>
          (case SideTab_call (SideTab_setDockWidget w) (c1\<lparr>DockWidget := Some w\<rparr>) of
             Inl e \<Rightarrow> Inl e
           | Inr c3 \<Rightarrow>
               (let OldDockArea = dockAreaWidget w;
                    IsRestoringState = isRestoringState w;
                    c4 = (case OldDockArea of
                            None \<Rightarrow> c3
                          | Some oa \<Rightarrow>
                              if \<not> IsRestoringState
                              then logCall (DockArea_removeDockWidget oa w)
                                     (c3\<lparr>Size := QSize_plus (area_size oa) \<lparr>width = 16, height = 16\<rparr>\<rparr>)
                              else c3)
                in case DockArea c4 of
                     None \<Rightarrow> Inl NullPointer
                   | Some a \<Rightarrow> updateSize (logCall (DockArea_addDockWidget a w) c4))))"

text \<open>
  What the constructor obtains from outside this file: the freshly constructed base
  part \<^verbatim>\<open>Super(parent)\<close>, the tab made by the components factory, the new
  \<^verbatim>\<open>CDockAreaWidget\<close>, what the new resize handle answers to \<^verbatim>\<open>orientation()\<close> and
  \<^verbatim>\<open>isResizing()\<close>, and the configuration flag \<^verbatim>\<open>OpaqueSplitterResize\<close>.
\<close>

record Created =
  new_Super :: QWidget
  new_SideTab :: QWidget
  new_DockArea :: CDockAreaWidget
  new_handleOrientation :: Orientation
  new_handleIsResizing :: bool
  OpaqueSplitterResize :: bool

text \<open>
  The base part is new when \<^verbatim>\<open>hide()\<close> runs at line 206, and a new widget is hidden: the
  call sends no hide event.
\<close>

definition construct ::
  "Created \<Rightarrow> CDockWidget \<Rightarrow> SideBarLocation \<Rightarrow> CDockContainerWidget \<Rightarrow>
   error + CAutoHideDockContainer" where
  "construct env dw area parent =
     (let c = QWidget.extend ((QWidget_hide (new_Super env))\<lparr>objectName := ''autoHideDockContainer''\<rparr>)
                (CAutoHideDockContainer.fields
                   (Some (new_DockArea env))
                   None
                   area
                   \<lparr>direction = (if isHorizontalArea area then TopToBottom else LeftToRight),
                    contentsMargins = (0, 0, 0, 0), spacing = 0, items = []\<rparr>
                   \<lparr>handlePosition = edgeFromSideTabBarArea area,
                    orientation = new_handleOrientation env,
                    isResizing = new_handleIsResizing env\<rparr>
                   (area_size (new_DockArea env))
                   (Some (new_SideTab env))
                   (Some parent)
                   False
                   [Slot_toggleCollapseState]
                   [DockArea_setObjectName ''autoHideDockArea'',
                    DockArea_setAutoHideDockContainer,
                    ResizeHandle_setMinResizeSize 64,
                    ResizeHandle_setOpaqueResize (OpaqueSplitterResize env)])
      in case addDockWidget dw c of
           Inl e \<Rightarrow> Inl e
         | Inr c1 \<Rightarrow>
             (let c2 = logCall (DockContainer_registerAutoHideWidget parent) c1;
                  c3 = c2\<lparr>Layout := addWidget Item_DockArea (Layout c2)\<rparr>;
                  c4 = c3\<lparr>Layout := insertWidget (resizeHandleLayoutPosition area)
                                      Item_ResizeHandle (Layout c3)\<rparr>
              in Inr c4))"

text \<open>The object as the constructor has set it up when it calls \<open>addDockWidget\<close> (line 226).\<close>

definition construct_init :: "Created \<Rightarrow> SideBarLocation \<Rightarrow> CDockContainerWidget \<Rightarrow> CAutoHideDockContainer" where
  "construct_init env area parent =
     QWidget.extend ((QWidget_hide (new_Super env))\<lparr>objectName := ''autoHideDockContainer''\<rparr>)
                (CAutoHideDockContainer.fields
                   (Some (new_DockArea env))
                   None
                   area
                   \<lparr>direction = (if isHorizontalArea area then TopToBottom else LeftToRight),
                    contentsMargins = (0, 0, 0, 0), spacing = 0, items = []\<rparr>
                   \<lparr>handlePosition = edgeFromSideTabBarArea area,
                    orientation = new_handleOrientation env,
                    isResizing = new_handleIsResizing env\<rparr>
                   (area_size (new_DockArea env))
                   (Some (new_SideTab env))
                   (Some parent)
                   False
                   [Slot_toggleCollapseState]
                   [DockArea_setObjectName ''autoHideDockArea'',
                    DockArea_setAutoHideDockContainer,
                    ResizeHandle_setMinResizeSize 64,
                    ResizeHandle_setOpaqueResize (OpaqueSplitterResize env)])"

subsection \<open>Saving the state\<close>

datatype xmlToken =
    StartElement string
  | Attribute string string
  | EndElement

fun digits :: "nat \<Rightarrow> string" where
  "digits n = (if n < 10 then [char_of (48 + n)] else digits (n div 10) @ [char_of (48 + n mod 10)])"

declare digits.simps [simp del]

text \<open>\<^verbatim>\<open>QString::number(int)\<close>: the decimal digits, with a minus sign for a negative number.\<close>

definition QString_number :: "int \<Rightarrow> string" where
  "QString_number n = (if n < 0 then CHR ''-'' # digits (nat (- n)) else digits (nat n))"

definition saveState :: "CAutoHideDockContainer \<Rightarrow> xmlToken list \<Rightarrow> error + xmlToken list" where
  "saveState c s =
     (case DockWidget c of
        None \<Rightarrow> Inl NullPointer
      | Some w \<Rightarrow>
          Inr (s @ [StartElement ''Widget'',
                    Attribute ''Name'' (dw_objectName w),
                    Attribute ''Closed'' (QString_number (if isClosed w then 1 else 0)),
                    Attribute ''Size'' (QString_number (if isHorizontal c then height (Size c)
                                                        else width (Size c))),
                    EndElement]))"

subsection \<open>Showing, collapsing and the event filter\<close>


definition collapseView :: "bool \<Rightarrow> CAutoHideDockContainer \<Rightarrow> error + CAutoHideDockContainer" where
  "collapseView Enable c =
     (if Enable
      then SideTab_call SideTab_updateStyle (removeEventFilter (hideContainer c))
      else (case updateSize c of
              Inl e \<Rightarrow> Inl e
            | Inr c1 \<Rightarrow>
                (case updateResizeHandleSizeLimitMax c1 of
                   Inl e \<Rightarrow> Inl e
                 | Inr c2 \<Rightarrow>
                     (case showContainer (logCall Widget_raise c2) of
                        Inl e \<Rightarrow> Inl e
                      | Inr c4 \<Rightarrow>
                          (case DockWidget c4 of
                             None \<Rightarrow> Inl NullPointer
                           | Some w \<Rightarrow>
                               SideTab_call SideTab_updateStyle
                                 (installEventFilter
                                    (logCall (DockManager_setDockWidgetFocused w) c4)))))))"

definition toggleCollapseState :: "CAutoHideDockContainer \<Rightarrow> error + CAutoHideDockContainer" where
  "toggleCollapseState c = collapseView (isVisible c) c"

text \<open>
  Emitting the \<^verbatim>\<open>pressed\<close> signal of the side tab runs the connected slots of this
  object in the order of connection.
\<close>

fun SideTab_pressed :: "slot list \<Rightarrow> CAutoHideDockContainer \<Rightarrow> error + CAutoHideDockContainer" where
  "SideTab_pressed [] c = Inr c"
| "SideTab_pressed (Slot_toggleCollapseState # ss) c =
     (case toggleCollapseState c of
        Inl e \<Rightarrow> Inl e
      | Inr c' \<Rightarrow> SideTab_pressed ss c')"

text \<open>
  The watched object: the chain \<^verbatim>\<open>widget, widget->parentWidget(), ...\<close> of widget
  identities that starts at \<^verbatim>\<open>qobject_cast<QWidget*>(watched)\<close> (empty when the cast
  gives null), and whether it casts to \<^verbatim>\<open>CFloatingDockContainer*\<close>.
\<close>

record QObject =
  widgetChain :: "nat list"
  isFloatingDockContainer :: bool

fun parentLoop :: "nat list \<Rightarrow> CDockContainerWidget option \<Rightarrow> bool \<Rightarrow> bool" where
  "parentLoop [] Container IsContainer = IsContainer"
| "parentLoop (widget # rest) Container IsContainer =
     parentLoop rest Container
       (if (case Container of None \<Rightarrow> False | Some k \<Rightarrow> widget = container_id k) then True
        else IsContainer)"

text \<open>\<^verbatim>\<open>Super::eventFilter\<close> is \<^verbatim>\<open>QObject::eventFilter\<close>, which lets every event pass.\<close>

definition Super_eventFilter :: "QObject \<Rightarrow> QEvent \<Rightarrow> bool" where
  "Super_eventFilter watched ev = False"

definition eventFilter ::
  "QObject \<Rightarrow> QEvent \<Rightarrow> CAutoHideDockContainer \<Rightarrow> error + (CAutoHideDockContainer \<times> bool)" where
  "eventFilter watched ev c =
     (case ev of
        Resize \<Rightarrow>
          (if \<not> isResizing (ResizeHandle c)
           then (case updateSize c of
                   Inl e \<Rightarrow> Inl e
                 | Inr c' \<Rightarrow> Inr (c', Super_eventFilter watched ev))
           else Inr (c, Super_eventFilter watched ev))
      | MouseButtonPress GlobalPos \<Rightarrow>
          (let Container = dockContainer c;
               IsContainer = parentLoop (widgetChain watched) Container False
           in if \<not> IsContainer then Inr (c, Super_eventFilter watched ev)
              else if rect_contains (QWidget_rect c) (mapFromGlobal c GlobalPos)
              then Inr (c, Super_eventFilter watched ev)
              else (case SideTab c of
                      None \<Rightarrow> Inl NullPointer
                    | Some t \<Rightarrow>
                        if rect_contains (QWidget_rect t) (mapFromGlobal t GlobalPos)
                        then Inr (c, Super_eventFilter watched ev)
                        else (case collapseView True c of
                                Inl e \<Rightarrow> Inl e
                              | Inr c' \<Rightarrow> Inr (c', Super_eventFilter watched ev))))
      | NonClientAreaMouseButtonPress \<Rightarrow>
          (if isFloatingDockContainer watched
           then (case collapseView True c of
                   Inl e \<Rightarrow> Inl e
                 | Inr c' \<Rightarrow> Inr (c', Super_eventFilter watched ev))
           else Inr (c, Super_eventFilter watched ev))
      | FloatingWidgetDragStartEvent \<Rightarrow>
          (case collapseView True c of
             Inl e \<Rightarrow> Inl e
           | Inr c' \<Rightarrow> Inr (c', Super_eventFilter watched ev))
      | _ \<Rightarrow> Inr (c, Super_eventFilter watched ev))"

subsection \<open>Example objects\<close>

text \<open>
  Concrete objects on which the theorems below are instantiated: a dock container whose
  content rectangle is 800 by 600 at (10, 20), a dock widget that sits in a dock area of
  300 by 200, an auto-hide container for that dock widget as it is after construction
  (hidden), the same container shown at the left side, and shown while its handle is
  resizing.
\<close>

definition ex_parent :: CDockContainerWidget where
  "ex_parent = \<lparr>container_id = 7, contentRect = \<lparr>rx1 = 10, ry1 = 20, rx2 = 809, ry2 = 619\<rparr>\<rparr>"

definition ex_widget :: QWidget where
  "ex_widget =
     \<lparr>hidden = True, ancestorsVisible = True, geo_pos = \<lparr>xp = 0, yp = 0\<rparr>,
      geo_size = \<lparr>width = 100, height = 30\<rparr>, minimumSize = \<lparr>width = 0, height = 0\<rparr>,
      maximumSize = \<lparr>width = 16777215, height = 16777215\<rparr>,
      parentOrigin = \<lparr>xp = 50, yp = 60\<rparr>, objectName = ''widget'',
      pendingResizeEvent = True\<rparr>"

definition ex_dockArea :: CDockAreaWidget where
  "ex_dockArea =
     \<lparr>area_id = 1, area_size = \<lparr>width = 100, height = 30\<rparr>, area_dockContainer = Some ex_parent\<rparr>"

definition ex_oldArea :: CDockAreaWidget where
  "ex_oldArea =
     \<lparr>area_id = 2, area_size = \<lparr>width = 300, height = 200\<rparr>, area_dockContainer = Some ex_parent\<rparr>"

definition ex_dockWidget :: CDockWidget where
  "ex_dockWidget =
     \<lparr>dw_objectName = ''dock1'', isClosed = False, dockAreaWidget = Some ex_oldArea,
      isRestoringState = False\<rparr>"

definition ex_created :: Created where
  "ex_created =
     \<lparr>new_Super = ex_widget, new_SideTab = ex_widget, new_DockArea = ex_dockArea,
      new_handleOrientation = Vertical, new_handleIsResizing = False,
      OpaqueSplitterResize = True\<rparr>"

definition ex_container :: "SideBarLocation \<Rightarrow> CAutoHideDockContainer" where
  "ex_container area =
     QWidget.extend ex_widget
       (CAutoHideDockContainer.fields
          (Some ex_dockArea)
          (Some ex_dockWidget)
          area
          \<lparr>direction = TopToBottom, contentsMargins = (0, 0, 0, 0), spacing = 0,
           items = [Item_DockArea, Item_ResizeHandle]\<rparr>
          \<lparr>handlePosition = edgeFromSideTabBarArea area, orientation = Vertical,
           isResizing = False\<rparr>
          \<lparr>width = 316, height = 216\<rparr>
          (Some ex_widget)
          (Some ex_parent)
          False
          [Slot_toggleCollapseState]
          [])"

definition ex_shown :: CAutoHideDockContainer where
  "ex_shown =
     (ex_container SideBarLeft)
       \<lparr>hidden := False, geo_pos := \<lparr>xp = 10, yp = 20\<rparr>, geo_size := \<lparr>width = 316, height = 600\<rparr>,
        pendingResizeEvent := False, eventFilterInstalled := True\<rparr>"

definition ex_resizing :: CAutoHideDockContainer where
  "ex_resizing = ex_shown\<lparr>ResizeHandle := (ResizeHandle ex_shown)\<lparr>isResizing := True\<rparr>\<rparr>"

definition ex_tall :: CAutoHideDockContainer where
  "ex_tall = (ex_container SideBarTop)\<lparr>minimumSize := \<lparr>width = 0, height = 300\<rparr>\<rparr>"

definition ex_otherArea :: CDockAreaWidget where
  "ex_otherArea =
     \<lparr>area_id = 3, area_size = \<lparr>width = 400, height = 250\<rparr>, area_dockContainer = Some ex_parent\<rparr>"

definition ex_dockWidget2 :: CDockWidget where
  "ex_dockWidget2 =
     \<lparr>dw_objectName = ''dock2'', isClosed = True, dockAreaWidget = Some ex_otherArea,
      isRestoringState = False\<rparr>"

definition ex_watched :: QObject where
  "ex_watched = \<lparr>widgetChain = [3, 7, 1], isFloatingDockContainer = False\<rparr>"

section \<open>Properties\<close>

subsection \<open>Geometry\<close>



lemma resizeContainer_Inr:
  assumes "dockContainer c = Some k"
  shows "\<exists>c'. resizeContainer wd ht c = Inr c' \<and>
     geo_size c' = adjustedSize c \<lparr>width = wd, height = ht\<rparr> \<and>
     c' = c\<lparr>geo_size := geo_size c', pendingResizeEvent := pendingResizeEvent c',
             Size := Size c', trace := trace c'\<rparr> \<and>
     (\<exists>xs. trace c' = trace c @ xs) \<and>
     (\<not> (isVisible c \<and> isResizing (ResizeHandle c)) \<longrightarrow> Size c' = Size c \<and> trace c' = trace c)"
  using assms
  by (auto simp: resizeContainer_def resizeEvent_def QWidget_resize_def Let_def
      updateResizeHandleSizeLimitMax_def logCall_def dockContainer_def split: option.splits)



lemma resizeContainer_D:
  assumes "dockContainer c = Some k" "resizeContainer wd ht c = Inr c1"
  shows "geo_size c1 = adjustedSize c \<lparr>width = wd, height = ht\<rparr>"
    and "c1 = c\<lparr>geo_size := geo_size c1, pendingResizeEvent := pendingResizeEvent c1,
             Size := Size c1, trace := trace c1\<rparr>"
    and "\<exists>xs. trace c1 = trace c @ xs"
    and "\<not> (isVisible c \<and> isResizing (ResizeHandle c)) \<Longrightarrow> Size c1 = Size c \<and> trace c1 = trace c"
  using resizeContainer_Inr [OF assms(1), of wd ht] assms(2) by auto

lemma resizeContainer_not_Inl:
  "dockContainer c = Some k \<Longrightarrow> resizeContainer wd ht c \<noteq> Inl e"
  using resizeContainer_Inr [of c k wd ht] by auto

lemma updateSize_total: "\<exists>c'. updateSize c = Inr c'"
  by (auto simp: updateSize_def Let_def resizeContainer_not_Inl
      split: option.splits SideBarLocation.splits sum.splits)

lemma move_frame:
  assumes "c1 = c\<lparr>geo_size := geo_size c1, pendingResizeEvent := pendingResizeEvent c1,
             Size := Size c1, trace := trace c1\<rparr>"
  shows "QWidget_move p c1 =
      c\<lparr>geo_size := geo_size c1, geo_pos := p,
        pendingResizeEvent := pendingResizeEvent c1, Size := Size c1, trace := trace c1\<rparr>"
  by (subst assms) (simp add: QWidget_move_def)

lemma updateSize_frame:
  assumes "updateSize c = Inr c'"
  shows "c' = c\<lparr>geo_size := geo_size c', geo_pos := geo_pos c',
             pendingResizeEvent := pendingResizeEvent c', Size := Size c', trace := trace c'\<rparr>"
proof (cases "dockContainer c")
  case None
  with assms show ?thesis by (simp add: updateSize_def)
next
  case (Some k)
  show ?thesis
  proof (cases "sideBarLocation c")
    case SideBarNone
    with assms Some show ?thesis by (simp add: updateSize_def)
  next
    case SideBarTop
    with assms Some obtain c1 wd ht p where
      "resizeContainer wd ht c = Inr c1" "c' = QWidget_move p c1"
      by (auto simp: updateSize_def Let_def split: sum.splits)
    then show ?thesis
      using move_frame [OF resizeContainer_D(2) [OF Some], of wd ht c1 p]
      by (simp add: QWidget_move_def)
  next
    case SideBarLeft
    with assms Some obtain c1 wd ht p where
      "resizeContainer wd ht c = Inr c1" "c' = QWidget_move p c1"
      by (auto simp: updateSize_def Let_def split: sum.splits)
    then show ?thesis
      using move_frame [OF resizeContainer_D(2) [OF Some], of wd ht c1 p]
      by (simp add: QWidget_move_def)
  next
    case SideBarRight
    with assms Some obtain c1 wd ht p where
      "resizeContainer wd ht c = Inr c1" "c' = QWidget_move p c1"
      by (auto simp: updateSize_def Let_def split: sum.splits)
    then show ?thesis
      using move_frame [OF resizeContainer_D(2) [OF Some], of wd ht c1 p]
      by (simp add: QWidget_move_def)
  next
    case SideBarBottom
    with assms Some obtain c1 wd ht p where
      "resizeContainer wd ht c = Inr c1" "c' = QWidget_move p c1"
      by (auto simp: updateSize_def Let_def split: sum.splits)
    then show ?thesis
      using move_frame [OF resizeContainer_D(2) [OF Some], of wd ht c1 p]
      by (simp add: QWidget_move_def)
  qed
qed

lemma updateSize_trace:
  assumes "updateSize c = Inr c'"
  shows "\<exists>xs. trace c' = trace c @ xs"
    and "\<not> (isVisible c \<and> isResizing (ResizeHandle c)) \<Longrightarrow> Size c' = Size c \<and> trace c' = trace c"
proof -
  have "(\<exists>xs. trace c' = trace c @ xs) \<and>
        (\<not> (isVisible c \<and> isResizing (ResizeHandle c)) \<longrightarrow> Size c' = Size c \<and> trace c' = trace c)"
  proof (cases "dockContainer c")
    case None
    with assms show ?thesis by (simp add: updateSize_def)
  next
    case (Some k)
    show ?thesis
    proof (cases "sideBarLocation c = SideBarNone")
      case True
      with assms Some show ?thesis by (simp add: updateSize_def)
    next
      case False
      with assms Some obtain c1 wd ht p where
        r: "resizeContainer wd ht c = Inr c1" and m: "c' = QWidget_move p c1"
        by (cases "sideBarLocation c") (auto simp: updateSize_def Let_def split: sum.splits)
      show ?thesis
        using resizeContainer_D(3,4) [OF Some r] m by (auto simp: QWidget_move_def)
    qed
  qed
  then show "\<exists>xs. trace c' = trace c @ xs"
    and "\<not> (isVisible c \<and> isResizing (ResizeHandle c)) \<Longrightarrow> Size c' = Size c \<and> trace c' = trace c"
    by blast+
qed



lemmas ex_defs =
  ex_container_def ex_shown_def ex_resizing_def ex_tall_def ex_widget_def ex_dockArea_def
  ex_parent_def QWidget.extend_def CAutoHideDockContainer.fields_def

lemmas geo_defs =
  updateSize_def resizeContainer_def resizeEvent_def updateResizeHandleSizeLimitMax_def
  QWidget_resize_def QWidget_move_def adjustedSize_def expandedTo_def boundedTo_def
  dockContainer_def sideBarLocation_def isVisible_def logCall_def ResizeMargin_def
  rect_width_def rect_height_def topLeft_def topRight_def bottomLeft_def int32_def Let_def

lemma ex_dockContainer: "dockContainer (ex_container a) = Some ex_parent"
  by (simp add: dockContainer_def ex_container_def ex_dockArea_def QWidget.extend_def
      CAutoHideDockContainer.fields_def)

lemma ex_sideBarLocation: "sideBarLocation (ex_container a) = a"
  by (simp add: sideBarLocation_def ex_container_def QWidget.extend_def
      CAutoHideDockContainer.fields_def)

lemma ex_Size: "Size (ex_container a) = \<lparr>width = 316, height = 216\<rparr>"
  by (simp add: ex_container_def QWidget.extend_def CAutoHideDockContainer.fields_def)





subsection \<open>What updateSize leaves alone\<close>

lemma updateSize_fields:
  assumes "updateSize c = Inr c'"
  shows "hidden c' = hidden c" "ancestorsVisible c' = ancestorsVisible c"
    "DockArea c' = DockArea c" "DockWidget c' = DockWidget c" "SideTab c' = SideTab c"
    "findParent c' = findParent c" "ResizeHandle c' = ResizeHandle c"
    "SideTabBarArea c' = SideTabBarArea c" "Layout c' = Layout c"
    "eventFilterInstalled c' = eventFilterInstalled c" "pressedSlots c' = pressedSlots c"
    "dockContainer c' = dockContainer c"
proof -
  note f = updateSize_frame [OF assms]
  show "hidden c' = hidden c" by (subst f) simp
  show "ancestorsVisible c' = ancestorsVisible c" by (subst f) simp
  show a: "DockArea c' = DockArea c" by (subst f) simp
  show "DockWidget c' = DockWidget c" by (subst f) simp
  show "SideTab c' = SideTab c" by (subst f) simp
  show p: "findParent c' = findParent c" by (subst f) simp
  show "ResizeHandle c' = ResizeHandle c" by (subst f) simp
  show "SideTabBarArea c' = SideTabBarArea c" by (subst f) simp
  show "Layout c' = Layout c" by (subst f) simp
  show "eventFilterInstalled c' = eventFilterInstalled c" by (subst f) simp
  show "pressedSlots c' = pressedSlots c" by (subst f) simp
  show "dockContainer c' = dockContainer c" by (simp add: dockContainer_def a p split: option.splits)
qed

subsection \<open>Hiding and showing\<close>

lemma hideContainer_hidden [simp]: "hidden (hideContainer c)"
  by (simp add: hideContainer_def event_def forwardEventToDockContainer_def QWidget_hide_def
      logCall_def split: option.splits)

lemma hideContainer_trace: "\<exists>xs. trace (hideContainer c) = trace c @ xs"
  by (simp add: hideContainer_def event_def forwardEventToDockContainer_def QWidget_hide_def
      logCall_def split: option.splits)

lemma hideContainer_frame:
  "hideContainer c = c\<lparr>hidden := True, trace := trace (hideContainer c)\<rparr>"
  by (cases "hidden c")
     (simp_all add: hideContainer_def event_def forwardEventToDockContainer_def QWidget_hide_def
      logCall_def dockContainer_def split: option.splits)

lemma hideContainer_fields [simp]:
  "SideTab (hideContainer c) = SideTab c"
  "eventFilterInstalled (hideContainer c) = eventFilterInstalled c"
  by (subst hideContainer_frame, simp)+

lemma showContainer_Inr:
  assumes "dockContainer c = Some k"
  shows "\<exists>c'. showContainer c = Inr c' \<and> \<not> hidden c' \<and>
     c' = c\<lparr>hidden := False, pendingResizeEvent := pendingResizeEvent c',
             Size := Size c', trace := trace c'\<rparr> \<and>
     (\<exists>xs. trace c' = trace c @ xs)"
  using assms
  by (auto simp: showContainer_def resizeEvent_def QWidget_show_def Let_def
      updateResizeHandleSizeLimitMax_def logCall_def dockContainer_def split: option.splits)

subsection \<open>Collapsing and expanding\<close>

lemma collapseView_True:
  assumes "SideTab c = Some t"
  shows "\<exists>c'. collapseView True c = Inr c' \<and> hidden c' \<and> \<not> eventFilterInstalled c' \<and>
     (\<exists>xs. trace c' = trace c @ xs @ [SideTab_updateStyle]) \<and>
     c' = c\<lparr>hidden := True, eventFilterInstalled := False, trace := trace c'\<rparr>"
proof -
  from hideContainer_trace obtain xs where xs: "trace (hideContainer c) = trace c @ xs" by blast
  let ?c' = "logCall SideTab_updateStyle (removeEventFilter (hideContainer c))"
  have e: "collapseView True c = Inr ?c'"
    using assms by (simp add: collapseView_def SideTab_call_def removeEventFilter_def)
  have f: "?c' = c\<lparr>hidden := True, eventFilterInstalled := False, trace := trace ?c'\<rparr>"
    by (subst hideContainer_frame) (simp add: logCall_def removeEventFilter_def)
  have "hidden ?c' \<and> \<not> eventFilterInstalled ?c' \<and>
        trace ?c' = trace c @ xs @ [SideTab_updateStyle]"
    by (simp add: logCall_def removeEventFilter_def xs)
  with e f show ?thesis by metis
qed

lemma collapseView_False:
  assumes "SideTab c = Some t" "DockWidget c = Some w" "dockContainer c = Some k"
  shows "\<exists>c' u. collapseView False c = Inr c' \<and> updateSize c = Inr u \<and>
     \<not> hidden c' \<and> eventFilterInstalled c' \<and>
     geo_size c' = geo_size u \<and> geo_pos c' = geo_pos u \<and>
     (\<exists>ys. trace c' = trace u @
        [ResizeHandle_setMaxResizeSize
           (int32 ((if orientation (ResizeHandle c) = Horizontal then rect_width (contentRect k)
                    else rect_height (contentRect k)) - 30)),
         Widget_raise] @ ys @
        [DockManager_setDockWidgetFocused w, SideTab_updateStyle])"
proof -
  from updateSize_total obtain u where u: "updateSize c = Inr u" by blast
  note uf = updateSize_fields [OF u]
  let ?m = "ResizeHandle_setMaxResizeSize
           (int32 ((if orientation (ResizeHandle c) = Horizontal then rect_width (contentRect k)
                    else rect_height (contentRect k)) - 30))"
  let ?c2 = "logCall ?m u"
  have m: "updateResizeHandleSizeLimitMax u = Inr ?c2"
    using assms(3) by (simp add: updateResizeHandleSizeLimitMax_def uf ResizeMargin_def)
  let ?c3 = "logCall Widget_raise ?c2"
  have k3: "dockContainer ?c3 = Some k"
    using assms(3) uf(12) by (simp add: dockContainer_def logCall_def split: option.splits)
  from showContainer_Inr [OF k3]
  obtain c4 ys where s: "showContainer ?c3 = Inr c4" and nh: "\<not> hidden c4"
    and f4: "c4 = ?c3\<lparr>hidden := False, pendingResizeEvent := pendingResizeEvent c4,
                       Size := Size c4, trace := trace c4\<rparr>"
    and t4: "trace c4 = trace ?c3 @ ys"
    by blast
  have dw: "DockWidget c4 = Some w"
    by (subst f4) (simp add: logCall_def uf assms(2))
  have st: "SideTab c4 = Some t"
    by (subst f4) (simp add: logCall_def uf assms(1))
  have g4: "geo_size c4 = geo_size u" "geo_pos c4 = geo_pos u"
    by (subst f4, simp add: logCall_def)+
  let ?c' = "logCall SideTab_updateStyle
               (installEventFilter (logCall (DockManager_setDockWidgetFocused w) c4))"
  have "collapseView False c =
      SideTab_call SideTab_updateStyle
        (installEventFilter (logCall (DockManager_setDockWidgetFocused w) c4))"
    by (simp only: collapseView_def if_False u sum.case m s dw option.case)
  then have e: "collapseView False c = Inr ?c'"
    using st by (simp add: SideTab_call_def installEventFilter_def logCall_def)
  have "\<not> hidden ?c' \<and> eventFilterInstalled ?c' \<and>
     geo_size ?c' = geo_size u \<and> geo_pos ?c' = geo_pos u \<and>
     trace ?c' = trace u @ [?m, Widget_raise] @ ys @
        [DockManager_setDockWidgetFocused w, SideTab_updateStyle]"
    using nh g4 t4 by (simp add: logCall_def installEventFilter_def)
  with e u show ?thesis by blast
qed

lemma collapseView_Inr:
  assumes "collapseView e c = Inr c'"
  shows "hidden c' = e \<and> eventFilterInstalled c' = (\<not> e)"
proof (cases e)
  case True
  with assms show ?thesis
    by (auto simp: collapseView_def SideTab_call_def removeEventFilter_def logCall_def
        split: option.splits)
next
  case False
  from False assms obtain c3 c4 w where
    s: "showContainer c3 = Inr c4" and
    r: "c' = logCall SideTab_updateStyle
               (installEventFilter (logCall (DockManager_setDockWidgetFocused w) c4))"
    by (auto simp: collapseView_def SideTab_call_def split: sum.splits option.splits)
  have "\<not> hidden c4"
    using s by (auto simp: showContainer_def resizeEvent_def QWidget_show_def Let_def
        updateResizeHandleSizeLimitMax_def logCall_def split: if_splits option.splits)
  with r False show ?thesis
    by (simp add: logCall_def installEventFilter_def)
qed



lemma ex_SideTab: "SideTab (ex_container a) = Some ex_widget"
  by (simp add: ex_container_def QWidget.extend_def CAutoHideDockContainer.fields_def)

lemma ex_DockWidget: "DockWidget (ex_container a) = Some ex_dockWidget"
  by (simp add: ex_container_def QWidget.extend_def CAutoHideDockContainer.fields_def)

lemma ex_DockArea: "DockArea (ex_container a) = Some ex_dockArea"
  by (simp add: ex_container_def QWidget.extend_def CAutoHideDockContainer.fields_def)

lemma ex_hidden: "hidden (ex_container a)"
  by (simp add: ex_container_def ex_widget_def QWidget.extend_def CAutoHideDockContainer.fields_def)

lemma ex_trace: "trace (ex_container a) = []"
  by (simp add: ex_container_def QWidget.extend_def CAutoHideDockContainer.fields_def)

lemma ex_shown_simps:
  "dockContainer ex_shown = Some ex_parent"
  "SideTab ex_shown = Some ex_widget"
  "DockWidget ex_shown = Some ex_dockWidget"
  "trace ex_shown = []"
  "QWidget_rect ex_shown = \<lparr>rx1 = 0, ry1 = 0, rx2 = 315, ry2 = 599\<rparr>"
  "mapFromGlobal ex_shown \<lparr>xp = a, yp = b\<rparr> = \<lparr>xp = a - 60, yp = b - 80\<rparr>"
  "isVisible ex_shown"
  by (simp_all add: ex_shown_def dockContainer_def ex_container_def ex_widget_def ex_dockArea_def
      QWidget_rect_def mapFromGlobal_def QPoint_minus_def isVisible_def
      QWidget.extend_def CAutoHideDockContainer.fields_def)

text \<open>
  C4. With a side tab, \<open>collapseView True\<close> returns with the container hidden and the
  application event filter removed; its last call updates the style of the tab, and
  besides the two flags only the trace changes. With a side tab, a dock widget and a
  parent dock container, \<open>collapseView False\<close> returns with the container shown and the
  event filter installed; the geometry is the one \<open>updateSize\<close> computes, and after
  \<open>updateSize\<close> it sets the maximum of the resize handle, raises the container, shows it,
  gives the focus to the dock widget and updates the style of the tab, in this order.
  Whenever \<open>collapseView\<close> returns, the event filter is installed if and only if the
  container is shown.
\<close>

theorem collapseView_spec:
  "(\<forall>t. SideTab c = Some t \<longrightarrow>
      (\<exists>c'. collapseView True c = Inr c' \<and> hidden c' \<and> \<not> eventFilterInstalled c' \<and>
         (\<exists>xs. trace c' = trace c @ xs @ [SideTab_updateStyle]) \<and>
         c' = c\<lparr>hidden := True, eventFilterInstalled := False, trace := trace c'\<rparr>) \<and>
      (\<forall>w k. DockWidget c = Some w \<and> dockContainer c = Some k \<longrightarrow>
         (\<exists>c' u. collapseView False c = Inr c' \<and> updateSize c = Inr u \<and>
            \<not> hidden c' \<and> eventFilterInstalled c' \<and>
            geo_size c' = geo_size u \<and> geo_pos c' = geo_pos u \<and>
            (\<exists>ys. trace c' = trace u @
               [ResizeHandle_setMaxResizeSize
                  (int32 ((if orientation (ResizeHandle c) = Horizontal
                           then rect_width (contentRect k)
                           else rect_height (contentRect k)) - 30)),
                Widget_raise] @ ys @
               [DockManager_setDockWidgetFocused w, SideTab_updateStyle])))) \<and>
   (\<forall>e c'. collapseView e c = Inr c' \<longrightarrow>
      hidden c' = e \<and> (eventFilterInstalled c' \<longleftrightarrow> \<not> hidden c'))"
proof (intro conjI allI impI)
  fix t assume "SideTab c = Some t"
  then show "\<exists>c'. collapseView True c = Inr c' \<and> hidden c' \<and> \<not> eventFilterInstalled c' \<and>
         (\<exists>xs. trace c' = trace c @ xs @ [SideTab_updateStyle]) \<and>
         c' = c\<lparr>hidden := True, eventFilterInstalled := False, trace := trace c'\<rparr>"
    by (rule collapseView_True)
next
  fix t w k assume "SideTab c = Some t" "DockWidget c = Some w \<and> dockContainer c = Some k"
  then show "\<exists>c' u. collapseView False c = Inr c' \<and> updateSize c = Inr u \<and>
            \<not> hidden c' \<and> eventFilterInstalled c' \<and>
            geo_size c' = geo_size u \<and> geo_pos c' = geo_pos u \<and>
            (\<exists>ys. trace c' = trace u @
               [ResizeHandle_setMaxResizeSize
                  (int32 ((if orientation (ResizeHandle c) = Horizontal
                           then rect_width (contentRect k)
                           else rect_height (contentRect k)) - 30)),
                Widget_raise] @ ys @
               [DockManager_setDockWidgetFocused w, SideTab_updateStyle])"
    using collapseView_False [of c t w k] by simp
next
  fix e c' assume a: "collapseView e c = Inr c'"
  from collapseView_Inr [OF a] show "hidden c' = e" by simp
  from collapseView_Inr [OF a] show "eventFilterInstalled c' \<longleftrightarrow> \<not> hidden c'" by simp
qed

lemmas collapse_defs =
  collapseView_def hideContainer_def showContainer_def event_def
  forwardEventToDockContainer_def QWidget_hide_def QWidget_show_def SideTab_call_def
  removeEventFilter_def installEventFilter_def

theorem collapseView_spec_witness:
  "SideTab ex_shown = Some ex_widget \<and>
   map_sum id (\<lambda>c. (hidden c, eventFilterInstalled c, trace c)) (collapseView True ex_shown) =
     Inr (True, False,
          [DockContainer_handleAutoHideWidgetEvent ex_parent Hide, SideTab_updateStyle]) \<and>
   SideTab (ex_container SideBarLeft) = Some ex_widget \<and>
   DockWidget (ex_container SideBarLeft) = Some ex_dockWidget \<and>
   dockContainer (ex_container SideBarLeft) = Some ex_parent \<and>
   map_sum id (\<lambda>c. (hidden c, eventFilterInstalled c, geo_size c, geo_pos c, trace c))
     (collapseView False (ex_container SideBarLeft)) =
     Inr (False, True, \<lparr>width = 316, height = 600\<rparr>, \<lparr>xp = 10, yp = 20\<rparr>,
          [ResizeHandle_setMaxResizeSize 570, Widget_raise,
           DockManager_setDockWidgetFocused ex_dockWidget, SideTab_updateStyle])"
proof -
  from collapseView_spec [of ex_shown, THEN conjunct1, rule_format, OF ex_shown_simps(2),
      THEN conjunct1]
  obtain c1 where c1: "collapseView True ex_shown = Inr c1"
    and f1: "hidden c1" "\<not> eventFilterInstalled c1" by blast
  have t1: "map_sum id trace (collapseView True ex_shown) =
      Inr [DockContainer_handleAutoHideWidgetEvent ex_parent Hide, SideTab_updateStyle]"
    by (simp add: collapse_defs ex_defs dockContainer_def logCall_def)
  from collapseView_spec [of "ex_container SideBarLeft", THEN conjunct1, rule_format,
      OF ex_SideTab, THEN conjunct2, rule_format, OF conjI [OF ex_DockWidget ex_dockContainer]]
  obtain c2 where c2: "collapseView False (ex_container SideBarLeft) = Inr c2"
    and f2: "\<not> hidden c2" "eventFilterInstalled c2" by blast
  have t2: "map_sum id (\<lambda>c. (geo_size c, geo_pos c, trace c))
      (collapseView False (ex_container SideBarLeft)) =
      Inr (\<lparr>width = 316, height = 600\<rparr>, \<lparr>xp = 10, yp = 20\<rparr>,
          [ResizeHandle_setMaxResizeSize 570, Widget_raise,
           DockManager_setDockWidgetFocused ex_dockWidget, SideTab_updateStyle])"
    by (simp add: collapse_defs ex_defs geo_defs)
  show ?thesis
    using t1 t2 f1 f2
    by (simp add: c1 c2 ex_shown_simps ex_SideTab ex_DockWidget ex_dockContainer)
qed

subsection \<open>Adding a dock widget\<close>

lemma addDockWidget_eq:
  "DockArea c = Some a \<Longrightarrow> SideTab c = Some t \<Longrightarrow>
   addDockWidget w c =
     updateSize
       (c\<lparr>DockWidget := Some w,
          Size := (case dockAreaWidget w of
                     Some oa \<Rightarrow>
                       if \<not> isRestoringState w
                       then \<lparr>width = width (area_size oa) + 16, height = height (area_size oa) + 16\<rparr>
                       else Size c
                   | None \<Rightarrow> Size c),
          trace := trace c @
            (case DockWidget c of Some old \<Rightarrow> [DockArea_removeDockWidget a old] | None \<Rightarrow> []) @
            [SideTab_setDockWidget w] @
            (case dockAreaWidget w of
               Some oa \<Rightarrow> if \<not> isRestoringState w then [DockArea_removeDockWidget oa w] else []
             | None \<Rightarrow> []) @
            [DockArea_addDockWidget a w]\<rparr>)"
  by (auto simp: addDockWidget_def SideTab_call_def logCall_def Let_def QSize_plus_def
      split: option.splits)

text \<open>
  C7. With an internal dock area and a side tab, \<open>addDockWidget w\<close> returns, and it does
  the following in this order: it removes the dock widget held so far (if any) from the
  internal dock area; it records \<open>w\<close> as the dock widget and hands it to the side tab;
  if \<open>w\<close> has a dock area and the dock manager is not restoring state, it sets the
  tracked size to the size of that area plus (16, 16) and removes \<open>w\<close> from that area;
  it adds \<open>w\<close> to the internal dock area; it runs \<open>updateSize\<close>.
\<close>

theorem addDockWidget_spec:
  "DockArea c = Some a \<and> SideTab c = Some t \<longrightarrow>
   addDockWidget w c =
     updateSize
       (c\<lparr>DockWidget := Some w,
          Size := (case dockAreaWidget w of
                     Some oa \<Rightarrow>
                       if \<not> isRestoringState w
                       then \<lparr>width = width (area_size oa) + 16, height = height (area_size oa) + 16\<rparr>
                       else Size c
                   | None \<Rightarrow> Size c),
          trace := trace c @
            (case DockWidget c of Some old \<Rightarrow> [DockArea_removeDockWidget a old] | None \<Rightarrow> []) @
            [SideTab_setDockWidget w] @
            (case dockAreaWidget w of
               Some oa \<Rightarrow> if \<not> isRestoringState w then [DockArea_removeDockWidget oa w] else []
             | None \<Rightarrow> []) @
            [DockArea_addDockWidget a w]\<rparr>) \<and>
   (\<exists>c'. addDockWidget w c = Inr c')"
  using addDockWidget_eq [of c a t w] updateSize_total by simp

theorem addDockWidget_spec_witness:
  "DockArea (ex_container SideBarLeft) = Some ex_dockArea \<and>
   SideTab (ex_container SideBarLeft) = Some ex_widget \<and>
   addDockWidget ex_dockWidget2 (ex_container SideBarLeft) =
     updateSize ((ex_container SideBarLeft)
       \<lparr>DockWidget := Some ex_dockWidget2,
        Size := \<lparr>width = 416, height = 266\<rparr>,
        trace := [DockArea_removeDockWidget ex_dockArea ex_dockWidget,
                  SideTab_setDockWidget ex_dockWidget2,
                  DockArea_removeDockWidget ex_otherArea ex_dockWidget2,
                  DockArea_addDockWidget ex_dockArea ex_dockWidget2]\<rparr>)"
  using addDockWidget_spec [of "ex_container SideBarLeft" ex_dockArea ex_widget ex_dockWidget2]
  by (simp add: ex_DockArea ex_SideTab ex_DockWidget ex_trace ex_dockWidget2_def ex_otherArea_def)

subsection \<open>The constructor\<close>

lemma construct_init_simps:
  "DockArea (construct_init env area parent) = Some (new_DockArea env)"
  "SideTab (construct_init env area parent) = Some (new_SideTab env)"
  "DockWidget (construct_init env area parent) = None"
  "hidden (construct_init env area parent) = True"
  "SideTabBarArea (construct_init env area parent) = area"
  "Size (construct_init env area parent) = area_size (new_DockArea env)"
  "handlePosition (ResizeHandle (construct_init env area parent)) = edgeFromSideTabBarArea area"
  "items (Layout (construct_init env area parent)) = []"
  "trace (construct_init env area parent) =
     [DockArea_setObjectName ''autoHideDockArea'', DockArea_setAutoHideDockContainer,
      ResizeHandle_setMinResizeSize 64, ResizeHandle_setOpaqueResize (OpaqueSplitterResize env)]"
  "pressedSlots (construct_init env area parent) = [Slot_toggleCollapseState]"
  by (simp_all add: construct_init_def QWidget_hide_def QWidget.extend_def CAutoHideDockContainer.fields_def)

lemma construct_unfold:
  "construct env dw area parent =
     (case addDockWidget dw (construct_init env area parent) of
        Inl e \<Rightarrow> Inl e
      | Inr c1 \<Rightarrow>
          Inr (c1\<lparr>trace := trace c1 @ [DockContainer_registerAutoHideWidget parent],
                 Layout := insertWidget (resizeHandleLayoutPosition area) Item_ResizeHandle
                             (addWidget Item_DockArea (Layout c1))\<rparr>))"
  by (simp add: construct_def construct_init_def Let_def logCall_def split: sum.splits)

lemma items_construct:
  "items l = [] \<Longrightarrow>
   items (insertWidget (resizeHandleLayoutPosition area) Item_ResizeHandle
            (addWidget Item_DockArea l)) =
     (if area = SideBarTop \<or> area = SideBarLeft then [Item_DockArea, Item_ResizeHandle]
      else [Item_ResizeHandle, Item_DockArea])"
  by (cases area) (simp_all add: insertWidget_def addWidget_def)

lemma construct_Inr:
  "\<exists>c. construct env dw area parent = Inr c \<and>
     hidden c \<and> SideTabBarArea c = area \<and> DockArea c = Some (new_DockArea env) \<and>
     Size c = (case dockAreaWidget dw of
                 Some oa \<Rightarrow>
                   if \<not> isRestoringState dw
                   then \<lparr>width = width (area_size oa) + 16, height = height (area_size oa) + 16\<rparr>
                   else area_size (new_DockArea env)
               | None \<Rightarrow> area_size (new_DockArea env)) \<and>
     trace c =
       [DockArea_setObjectName ''autoHideDockArea'', DockArea_setAutoHideDockContainer,
        ResizeHandle_setMinResizeSize 64, ResizeHandle_setOpaqueResize (OpaqueSplitterResize env),
        SideTab_setDockWidget dw] @
       (case dockAreaWidget dw of
          Some oa \<Rightarrow> if \<not> isRestoringState dw then [DockArea_removeDockWidget oa dw] else []
        | None \<Rightarrow> []) @
       [DockArea_addDockWidget (new_DockArea env) dw,
        DockContainer_registerAutoHideWidget parent] \<and>
     handlePosition (ResizeHandle c) = edgeFromSideTabBarArea area \<and>
     items (Layout c) =
       (if area = SideBarTop \<or> area = SideBarLeft then [Item_DockArea, Item_ResizeHandle]
        else [Item_ResizeHandle, Item_DockArea]) \<and>
     pressedSlots c = [Slot_toggleCollapseState]"
proof -
  let ?ini = "construct_init env area parent"
  let ?S = "case dockAreaWidget dw of
              Some oa \<Rightarrow>
                if \<not> isRestoringState dw
                then \<lparr>width = width (area_size oa) + 16, height = height (area_size oa) + 16\<rparr>
                else area_size (new_DockArea env)
            | None \<Rightarrow> area_size (new_DockArea env)"
  let ?T = "trace ?ini @ [SideTab_setDockWidget dw] @
            (case dockAreaWidget dw of
               Some oa \<Rightarrow> if \<not> isRestoringState dw then [DockArea_removeDockWidget oa dw] else []
             | None \<Rightarrow> []) @
            [DockArea_addDockWidget (new_DockArea env) dw]"
  let ?mid = "?ini\<lparr>DockWidget := Some dw, Size := ?S, trace := ?T\<rparr>"
  have add: "addDockWidget dw ?ini = updateSize ?mid"
    by (simp add: addDockWidget_eq [OF construct_init_simps(1) construct_init_simps(2)]
        construct_init_simps split: option.splits)
  from updateSize_total obtain c1 where u: "updateSize ?mid = Inr c1" by blast
  note uf = updateSize_fields [OF u]
  have nv: "\<not> (isVisible ?mid \<and> isResizing (ResizeHandle ?mid))"
    by (simp add: isVisible_def construct_init_simps)
  from updateSize_trace(2) [OF u nv] have st: "Size c1 = ?S" "trace c1 = ?T"
    by simp_all
  let ?fin = "c1\<lparr>trace := trace c1 @ [DockContainer_registerAutoHideWidget parent],
                 Layout := insertWidget (resizeHandleLayoutPosition area) Item_ResizeHandle
                             (addWidget Item_DockArea (Layout c1))\<rparr>"
  have eq: "construct env dw area parent = Inr ?fin"
    by (simp only: construct_unfold add u sum.case)
  have "hidden ?fin \<and> SideTabBarArea ?fin = area \<and> DockArea ?fin = Some (new_DockArea env) \<and>
     Size ?fin = ?S \<and>
     trace ?fin = ?T @ [DockContainer_registerAutoHideWidget parent] \<and>
     handlePosition (ResizeHandle ?fin) = edgeFromSideTabBarArea area \<and>
     items (Layout ?fin) =
       (if area = SideBarTop \<or> area = SideBarLeft then [Item_DockArea, Item_ResizeHandle]
        else [Item_ResizeHandle, Item_DockArea]) \<and>
     pressedSlots ?fin = [Slot_toggleCollapseState]"
    by (simp add: uf st construct_init_simps items_construct)
  with eq show ?thesis
    by (simp add: construct_init_simps)
qed

lemma construct_pressedSlots:
  "construct env dw area parent = Inr c \<Longrightarrow> pressedSlots c = [Slot_toggleCollapseState]"
  using construct_Inr [of env dw area parent] by auto

lemma construct_Size:
  "map_sum id Size (construct env dw area parent) =
     Inr (case dockAreaWidget dw of
            Some oa \<Rightarrow>
              if \<not> isRestoringState dw
              then \<lparr>width = width (area_size oa) + 16, height = height (area_size oa) + 16\<rparr>
              else area_size (new_DockArea env)
          | None \<Rightarrow> area_size (new_DockArea env))"
  using construct_Inr [of env dw area parent] by auto

text \<open>
  C9, as the code has it. The constructor returns a container that is hidden, whose
  \<open>sideBarLocation\<close> is the area argument, and whose internal dock area is the new one.
  Its tracked size is the size of the new internal dock area when the dock widget has no
  dock area or the dock manager is restoring state; otherwise \<open>addDockWidget\<close>, which the
  constructor calls, has replaced it by the size of the dock widget's previous dock area
  plus (16, 16). The only minimum resize size set on the resize handle is 64; the handle
  sits on the edge opposite to the area (top: bottom, bottom: top, left: right, right:
  left) and is item 0 of the layout for bottom and right, item 1 for top and left.
\<close>

theorem construct_spec:
  "\<exists>c. construct env dw area parent = Inr c \<and>
     hidden c \<and> \<not> isVisible c \<and> sideBarLocation c = area \<and>
     DockArea c = Some (new_DockArea env) \<and>
     Size c = (case dockAreaWidget dw of
                 Some oa \<Rightarrow>
                   if \<not> isRestoringState dw
                   then \<lparr>width = width (area_size oa) + 16, height = height (area_size oa) + 16\<rparr>
                   else area_size (new_DockArea env)
               | None \<Rightarrow> area_size (new_DockArea env)) \<and>
     (\<forall>n. ResizeHandle_setMinResizeSize n \<in> set (trace c) \<longleftrightarrow> n = 64) \<and>
     handlePosition (ResizeHandle c) = edgeFromSideTabBarArea area \<and>
     (area = SideBarTop \<longrightarrow> handlePosition (ResizeHandle c) = BottomEdge) \<and>
     (area = SideBarBottom \<longrightarrow> handlePosition (ResizeHandle c) = TopEdge) \<and>
     (area = SideBarLeft \<longrightarrow> handlePosition (ResizeHandle c) = RightEdge) \<and>
     (area = SideBarRight \<longrightarrow> handlePosition (ResizeHandle c) = LeftEdge) \<and>
     (area = SideBarBottom \<or> area = SideBarRight \<longrightarrow>
        items (Layout c) = [Item_ResizeHandle, Item_DockArea]) \<and>
     (area = SideBarTop \<or> area = SideBarLeft \<longrightarrow>
        items (Layout c) = [Item_DockArea, Item_ResizeHandle])"
proof -
  from construct_Inr [of env dw area parent]
  obtain c where eq: "construct env dw area parent = Inr c"
    and h: "hidden c" and loc: "SideTabBarArea c = area"
    and da: "DockArea c = Some (new_DockArea env)"
    and sz: "Size c = (case dockAreaWidget dw of
                 Some oa \<Rightarrow>
                   if \<not> isRestoringState dw
                   then \<lparr>width = width (area_size oa) + 16, height = height (area_size oa) + 16\<rparr>
                   else area_size (new_DockArea env)
               | None \<Rightarrow> area_size (new_DockArea env))"
    and tr: "trace c =
       [DockArea_setObjectName ''autoHideDockArea'', DockArea_setAutoHideDockContainer,
        ResizeHandle_setMinResizeSize 64, ResizeHandle_setOpaqueResize (OpaqueSplitterResize env),
        SideTab_setDockWidget dw] @
       (case dockAreaWidget dw of
          Some oa \<Rightarrow> if \<not> isRestoringState dw then [DockArea_removeDockWidget oa dw] else []
        | None \<Rightarrow> []) @
       [DockArea_addDockWidget (new_DockArea env) dw,
        DockContainer_registerAutoHideWidget parent]"
    and hp: "handlePosition (ResizeHandle c) = edgeFromSideTabBarArea area"
    and it: "items (Layout c) =
       (if area = SideBarTop \<or> area = SideBarLeft then [Item_DockArea, Item_ResizeHandle]
        else [Item_ResizeHandle, Item_DockArea])"
    by blast
  have mn: "\<forall>n. ResizeHandle_setMinResizeSize n \<in> set (trace c) \<longleftrightarrow> n = 64"
    unfolding tr by (auto split: option.splits)
  have "hidden c \<and> \<not> isVisible c \<and> sideBarLocation c = area \<and>
     DockArea c = Some (new_DockArea env) \<and>
     (\<forall>n. ResizeHandle_setMinResizeSize n \<in> set (trace c) \<longleftrightarrow> n = 64) \<and>
     handlePosition (ResizeHandle c) = edgeFromSideTabBarArea area \<and>
     (area = SideBarTop \<longrightarrow> handlePosition (ResizeHandle c) = BottomEdge) \<and>
     (area = SideBarBottom \<longrightarrow> handlePosition (ResizeHandle c) = TopEdge) \<and>
     (area = SideBarLeft \<longrightarrow> handlePosition (ResizeHandle c) = RightEdge) \<and>
     (area = SideBarRight \<longrightarrow> handlePosition (ResizeHandle c) = LeftEdge) \<and>
     (area = SideBarBottom \<or> area = SideBarRight \<longrightarrow>
        items (Layout c) = [Item_ResizeHandle, Item_DockArea]) \<and>
     (area = SideBarTop \<or> area = SideBarLeft \<longrightarrow>
        items (Layout c) = [Item_DockArea, Item_ResizeHandle])"
    unfolding hp it isVisible_def sideBarLocation_def using h loc da mn by auto
  with eq sz show ?thesis by blast
qed

text \<open>
  The claim as it was stated fails: constructed for a dock widget that sits in a dock
  area of 300 by 200, the container tracks 316 by 216, while its new internal dock area
  is 100 by 30.
\<close>

theorem construct_size_counterexample:
  "map_sum id Size (construct ex_created ex_dockWidget SideBarBottom ex_parent) =
     Inr \<lparr>width = 316, height = 216\<rparr> \<and>
   area_size (new_DockArea ex_created) = \<lparr>width = 100, height = 30\<rparr>"
  by (simp add: construct_Size ex_created_def ex_dockWidget_def ex_oldArea_def ex_dockArea_def)

theorem construct_spec_witness:
  "map_sum id hidden (construct ex_created ex_dockWidget SideBarBottom ex_parent) = Inr True \<and>
   map_sum id sideBarLocation (construct ex_created ex_dockWidget SideBarBottom ex_parent) =
     Inr SideBarBottom \<and>
   map_sum id Size (construct ex_created ex_dockWidget SideBarBottom ex_parent) =
     Inr \<lparr>width = 316, height = 216\<rparr> \<and>
   map_sum id Size (construct ex_created (ex_dockWidget\<lparr>isRestoringState := True\<rparr>)
                      SideBarBottom ex_parent) =
     Inr \<lparr>width = 100, height = 30\<rparr> \<and>
   map_sum id (\<lambda>c. handlePosition (ResizeHandle c))
     (construct ex_created ex_dockWidget SideBarBottom ex_parent) = Inr TopEdge \<and>
   map_sum id (\<lambda>c. items (Layout c))
     (construct ex_created ex_dockWidget SideBarBottom ex_parent) =
     Inr [Item_ResizeHandle, Item_DockArea] \<and>
   map_sum id (\<lambda>c. items (Layout c))
     (construct ex_created ex_dockWidget SideBarLeft ex_parent) =
     Inr [Item_DockArea, Item_ResizeHandle]"
proof -
  obtain c1 where c1: "construct ex_created ex_dockWidget SideBarBottom ex_parent = Inr c1"
    and p1: "hidden c1" "sideBarLocation c1 = SideBarBottom"
      "Size c1 = \<lparr>width = 316, height = 216\<rparr>"
      "handlePosition (ResizeHandle c1) = TopEdge"
      "items (Layout c1) = [Item_ResizeHandle, Item_DockArea]"
    using construct_spec [of ex_created ex_dockWidget SideBarBottom ex_parent]
    by (auto simp: ex_dockWidget_def ex_oldArea_def)
  obtain c2 where c2: "construct ex_created (ex_dockWidget\<lparr>isRestoringState := True\<rparr>)
                         SideBarBottom ex_parent = Inr c2"
    and p2: "Size c2 = \<lparr>width = 100, height = 30\<rparr>"
    using construct_spec [of ex_created "ex_dockWidget\<lparr>isRestoringState := True\<rparr>"
        SideBarBottom ex_parent]
    by (auto simp: ex_dockWidget_def ex_oldArea_def ex_created_def ex_dockArea_def)
  obtain c3 where c3: "construct ex_created ex_dockWidget SideBarLeft ex_parent = Inr c3"
    and p3: "items (Layout c3) = [Item_DockArea, Item_ResizeHandle]"
    using construct_spec [of ex_created ex_dockWidget SideBarLeft ex_parent]
    by auto
  show ?thesis
    by (simp add: c1 p1 c2 p2 c3 p3)
qed

subsection \<open>Pressing the side tab\<close>

text \<open>
  C3. The constructor connects the \<^verbatim>\<open>pressed\<close> signal of the side tab to
  \<open>toggleCollapseState\<close> and to nothing else, so pressing the tab runs
  \<open>toggleCollapseState\<close>. That is \<open>collapseView (isVisible c)\<close>: when it returns, the
  container is hidden exactly when it was visible before and shown exactly when it was
  not visible before. It returns whenever the container has its side tab, its dock
  widget and a parent dock container.
\<close>

theorem toggleCollapseState_spec:
  "(\<forall>env dw area parent c. construct env dw area parent = Inr c \<longrightarrow>
      pressedSlots c = [Slot_toggleCollapseState]) \<and>
   SideTab_pressed [Slot_toggleCollapseState] c = toggleCollapseState c \<and>
   toggleCollapseState c = collapseView (isVisible c) c \<and>
   (\<forall>c'. toggleCollapseState c = Inr c' \<longrightarrow>
      (hidden c' \<longleftrightarrow> isVisible c) \<and> (\<not> hidden c' \<longleftrightarrow> \<not> isVisible c)) \<and>
   (\<forall>t w k. SideTab c = Some t \<and> DockWidget c = Some w \<and> dockContainer c = Some k \<longrightarrow>
      (\<exists>c'. toggleCollapseState c = Inr c'))"
proof (intro conjI allI impI)
  fix env dw area parent c'
  assume "construct env dw area parent = Inr c'"
  then show "pressedSlots c' = [Slot_toggleCollapseState]"
    by (rule construct_pressedSlots)
next
  show "SideTab_pressed [Slot_toggleCollapseState] c = toggleCollapseState c"
    by (simp split: sum.splits)
  show "toggleCollapseState c = collapseView (isVisible c) c"
    by (simp add: toggleCollapseState_def)
next
  fix c' assume "toggleCollapseState c = Inr c'"
  then show "hidden c' \<longleftrightarrow> isVisible c" "\<not> hidden c' \<longleftrightarrow> \<not> isVisible c"
    by (auto simp: toggleCollapseState_def dest: collapseView_Inr)
next
  fix t w k assume a: "SideTab c = Some t \<and> DockWidget c = Some w \<and> dockContainer c = Some k"
  show "\<exists>c'. toggleCollapseState c = Inr c'"
  proof (cases "isVisible c")
    case True
    with a collapseView_True [of c t] show ?thesis
      by (auto simp: toggleCollapseState_def)
  next
    case False
    with a collapseView_False [of c t w k] show ?thesis
      by (auto simp: toggleCollapseState_def)
  qed
qed

theorem toggleCollapseState_spec_witness:
  "\<not> isVisible (ex_container SideBarLeft) \<and>
   map_sum id hidden (toggleCollapseState (ex_container SideBarLeft)) = Inr False \<and>
   isVisible ((ex_container SideBarLeft)\<lparr>hidden := False\<rparr>) \<and>
   map_sum id hidden (toggleCollapseState ((ex_container SideBarLeft)\<lparr>hidden := False\<rparr>)) = Inr True"
proof -
  let ?h = "ex_container SideBarLeft"
  let ?v = "?h\<lparr>hidden := False\<rparr>"
  have nv: "\<not> isVisible ?h"
    by (simp add: isVisible_def ex_hidden)
  have v: "isVisible ?v"
    by (simp add: isVisible_def ex_container_def ex_widget_def QWidget.extend_def
        CAutoHideDockContainer.fields_def)
  have pre: "SideTab ?h = Some ex_widget \<and> DockWidget ?h = Some ex_dockWidget \<and>
             dockContainer ?h = Some ex_parent"
    by (simp add: ex_SideTab ex_DockWidget ex_dockContainer)
  have prev: "SideTab ?v = Some ex_widget \<and> DockWidget ?v = Some ex_dockWidget \<and>
              dockContainer ?v = Some ex_parent"
    using pre by (simp add: dockContainer_def split: option.splits)
  from toggleCollapseState_spec [of ?h] pre
  obtain c1 where c1: "toggleCollapseState ?h = Inr c1" by blast
  from toggleCollapseState_spec [of ?v] prev
  obtain c2 where c2: "toggleCollapseState ?v = Inr c2" by blast
  have "hidden c1 \<longleftrightarrow> isVisible ?h"
    using toggleCollapseState_spec [of ?h] c1 by blast
  moreover have "hidden c2 \<longleftrightarrow> isVisible ?v"
    using toggleCollapseState_spec [of ?v] c2 by blast
  ultimately show ?thesis
    using nv v c1 c2 by simp
qed

subsection \<open>The event filter\<close>

lemma parentLoop_iff:
  "parentLoop chain Container b \<longleftrightarrow>
     b \<or> (\<exists>k. Container = Some k \<and> container_id k \<in> set chain)"
  by (induction chain arbitrary: b) (auto split: option.splits)

lemma collapseView_True_changes: "collapseView True c \<noteq> Inr c"
proof (cases "SideTab c")
  case None
  then show ?thesis
    by (simp add: collapseView_def SideTab_call_def removeEventFilter_def)
next
  case (Some t)
  from collapseView_True [OF Some]
  obtain c' xs where "collapseView True c = Inr c'"
    and "trace c' = trace c @ xs @ [SideTab_updateStyle]" by blast
  then show ?thesis by auto
qed

lemma ex_widget_simps:
  "QWidget_rect ex_widget = \<lparr>rx1 = 0, ry1 = 0, rx2 = 99, ry2 = 29\<rparr>"
  "mapFromGlobal ex_widget \<lparr>xp = a, yp = b\<rparr> = \<lparr>xp = a - 50, yp = b - 60\<rparr>"
  by (simp_all add: ex_widget_def QWidget_rect_def mapFromGlobal_def QPoint_minus_def)

text \<open>
  C6. For a mouse button press at the global position \<open>g\<close>: if the event filter returns
  with a changed container, then the parent dock container is the watched widget or one
  of its ancestors, \<open>g\<close> lies outside the rectangle of the container and outside the
  rectangle of the side tab, and the change is that of \<open>collapseView True\<close>. A press
  inside the container, or on the side tab, leaves the container as it is. When all
  conditions hold, the filter returns what \<open>collapseView True\<close> returns: the container
  hidden and the event filter removed. \<open>collapseView True\<close> always changes the
  container, so an unchanged container means that it was not called.
\<close>

theorem eventFilter_mouse_press:
  "(\<forall>c' r. eventFilter watched (MouseButtonPress g) c = Inr (c', r) \<and> c' \<noteq> c \<longrightarrow>
      (\<exists>k. dockContainer c = Some k \<and> container_id k \<in> set (widgetChain watched)) \<and>
      \<not> rect_contains (QWidget_rect c) (mapFromGlobal c g) \<and>
      (\<exists>t. SideTab c = Some t \<and> \<not> rect_contains (QWidget_rect t) (mapFromGlobal t g)) \<and>
      collapseView True c = Inr c') \<and>
   (rect_contains (QWidget_rect c) (mapFromGlobal c g) \<longrightarrow>
      eventFilter watched (MouseButtonPress g) c = Inr (c, False)) \<and>
   (\<forall>t. SideTab c = Some t \<and> rect_contains (QWidget_rect t) (mapFromGlobal t g) \<longrightarrow>
      eventFilter watched (MouseButtonPress g) c = Inr (c, False)) \<and>
   (\<forall>k t. dockContainer c = Some k \<and> container_id k \<in> set (widgetChain watched) \<and>
      \<not> rect_contains (QWidget_rect c) (mapFromGlobal c g) \<and>
      SideTab c = Some t \<and> \<not> rect_contains (QWidget_rect t) (mapFromGlobal t g) \<longrightarrow>
      (\<exists>c'. collapseView True c = Inr c' \<and>
         eventFilter watched (MouseButtonPress g) c = Inr (c', False) \<and>
         hidden c' \<and> \<not> eventFilterInstalled c')) \<and>
   collapseView True c \<noteq> Inr c"
proof (intro conjI allI impI)
  fix c' r
  assume a: "eventFilter watched (MouseButtonPress g) c = Inr (c', r) \<and> c' \<noteq> c"
  then show "\<exists>k. dockContainer c = Some k \<and> container_id k \<in> set (widgetChain watched)"
    by (auto simp: eventFilter_def Let_def parentLoop_iff split: if_splits)
  from a show "\<not> rect_contains (QWidget_rect c) (mapFromGlobal c g)"
    by (auto simp: eventFilter_def Let_def split: if_splits)
  from a show "\<exists>t. SideTab c = Some t \<and> \<not> rect_contains (QWidget_rect t) (mapFromGlobal t g)"
    by (auto simp: eventFilter_def Let_def split: if_splits option.splits)
  from a show "collapseView True c = Inr c'"
    by (auto simp: eventFilter_def Let_def split: if_splits option.splits sum.splits)
next
  assume "rect_contains (QWidget_rect c) (mapFromGlobal c g)"
  then show "eventFilter watched (MouseButtonPress g) c = Inr (c, False)"
    by (simp add: eventFilter_def Let_def Super_eventFilter_def)
next
  fix t assume "SideTab c = Some t \<and> rect_contains (QWidget_rect t) (mapFromGlobal t g)"
  then show "eventFilter watched (MouseButtonPress g) c = Inr (c, False)"
    by (simp add: eventFilter_def Let_def Super_eventFilter_def)
next
  fix k t
  assume a: "dockContainer c = Some k \<and> container_id k \<in> set (widgetChain watched) \<and>
      \<not> rect_contains (QWidget_rect c) (mapFromGlobal c g) \<and>
      SideTab c = Some t \<and> \<not> rect_contains (QWidget_rect t) (mapFromGlobal t g)"
  then have st: "SideTab c = Some t" by simp
  from collapseView_True [OF st]
  obtain c' where cv: "collapseView True c = Inr c'"
    and f: "hidden c'" "\<not> eventFilterInstalled c'" by blast
  have "eventFilter watched (MouseButtonPress g) c = Inr (c', False)"
    using a by (simp add: eventFilter_def Let_def Super_eventFilter_def parentLoop_iff cv)
  with cv f show "\<exists>c'. collapseView True c = Inr c' \<and>
         eventFilter watched (MouseButtonPress g) c = Inr (c', False) \<and>
         hidden c' \<and> \<not> eventFilterInstalled c'"
    by blast
next
  show "collapseView True c \<noteq> Inr c"
    by (rule collapseView_True_changes)
qed

theorem eventFilter_mouse_press_witness:
  "dockContainer ex_shown = Some ex_parent \<and>
   container_id ex_parent \<in> set (widgetChain ex_watched) \<and>
   \<not> rect_contains (QWidget_rect ex_shown) (mapFromGlobal ex_shown \<lparr>xp = 500, yp = 300\<rparr>) \<and>
   SideTab ex_shown = Some ex_widget \<and>
   \<not> rect_contains (QWidget_rect ex_widget) (mapFromGlobal ex_widget \<lparr>xp = 500, yp = 300\<rparr>) \<and>
   map_sum id (\<lambda>(c', r). (hidden c', eventFilterInstalled c', r))
     (eventFilter ex_watched (MouseButtonPress \<lparr>xp = 500, yp = 300\<rparr>) ex_shown) =
     Inr (True, False, False) \<and>
   rect_contains (QWidget_rect ex_shown) (mapFromGlobal ex_shown \<lparr>xp = 100, yp = 300\<rparr>) \<and>
   eventFilter ex_watched (MouseButtonPress \<lparr>xp = 100, yp = 300\<rparr>) ex_shown = Inr (ex_shown, False) \<and>
   rect_contains (QWidget_rect ex_widget) (mapFromGlobal ex_widget \<lparr>xp = 52, yp = 62\<rparr>) \<and>
   eventFilter ex_watched (MouseButtonPress \<lparr>xp = 52, yp = 62\<rparr>) ex_shown = Inr (ex_shown, False)"
proof -
  have a: "container_id ex_parent \<in> set (widgetChain ex_watched)"
    by (simp add: ex_parent_def ex_watched_def)
  have b: "\<not> rect_contains (QWidget_rect ex_shown) (mapFromGlobal ex_shown \<lparr>xp = 500, yp = 300\<rparr>)"
    by (simp add: ex_shown_simps rect_contains_def)
  have c: "\<not> rect_contains (QWidget_rect ex_widget) (mapFromGlobal ex_widget \<lparr>xp = 500, yp = 300\<rparr>)"
    by (simp add: ex_widget_simps rect_contains_def)
  have d: "rect_contains (QWidget_rect ex_shown) (mapFromGlobal ex_shown \<lparr>xp = 100, yp = 300\<rparr>)"
    by (simp add: ex_shown_simps rect_contains_def)
  have e: "rect_contains (QWidget_rect ex_widget) (mapFromGlobal ex_widget \<lparr>xp = 52, yp = 62\<rparr>)"
    by (simp add: ex_widget_simps rect_contains_def)
  note t = eventFilter_mouse_press [of ex_watched _ ex_shown]
  have pre: "dockContainer ex_shown = Some ex_parent \<and>
      container_id ex_parent \<in> set (widgetChain ex_watched) \<and>
      \<not> rect_contains (QWidget_rect ex_shown) (mapFromGlobal ex_shown \<lparr>xp = 500, yp = 300\<rparr>) \<and>
      SideTab ex_shown = Some ex_widget \<and>
      \<not> rect_contains (QWidget_rect ex_widget) (mapFromGlobal ex_widget \<lparr>xp = 500, yp = 300\<rparr>)"
    using a b c ex_shown_simps(1,2) by simp
  from t [THEN conjunct2, THEN conjunct2, THEN conjunct2, THEN conjunct1, rule_format, OF pre]
  obtain c' where 1: "eventFilter ex_watched (MouseButtonPress \<lparr>xp = 500, yp = 300\<rparr>) ex_shown =
      Inr (c', False)" and f: "hidden c'" "\<not> eventFilterInstalled c'"
    by blast
  have 2: "eventFilter ex_watched (MouseButtonPress \<lparr>xp = 100, yp = 300\<rparr>) ex_shown = Inr (ex_shown, False)"
    by (rule t [THEN conjunct2, THEN conjunct1, rule_format, OF d])
  have 3: "eventFilter ex_watched (MouseButtonPress \<lparr>xp = 52, yp = 62\<rparr>) ex_shown = Inr (ex_shown, False)"
    by (rule t [THEN conjunct2, THEN conjunct2, THEN conjunct1, rule_format,
          OF conjI [OF ex_shown_simps(2) e]])
  have 4: "map_sum id (\<lambda>(c', r). (hidden c', eventFilterInstalled c', r))
     (eventFilter ex_watched (MouseButtonPress \<lparr>xp = 500, yp = 300\<rparr>) ex_shown) =
     Inr (True, False, False)"
    by (simp add: 1 f)
  show ?thesis
    using pre d e 2 3 4 by (intro conjI) (simp_all only: simp_thms)
qed

subsection \<open>Saving\<close>

lemma QString_number_0: "QString_number 0 = ''0''"
  by code_simp

lemma QString_number_1: "QString_number 1 = ''1''"
  by code_simp

text \<open>The decimal form determines the number: reading the digits back gives it again.\<close>

lemma foldl_digits:
  "foldl (\<lambda>a ch. 10 * a + (of_char ch - 48)) 0 (digits n) = n"
proof (induction n rule: digits.induct)
  case (1 n)
  show ?case
  proof (cases "n < 10")
    case True
    then show ?thesis
      by (subst digits.simps) (simp add: mod_pos_pos_trivial)
  next
    case False
    have m: "(48 + n mod 10) mod 256 = 48 + n mod 10"
      by (rule mod_less) (simp add: less_le_trans [OF add_strict_left_mono [OF mod_less_divisor]])
    from False 1 show ?thesis
      by (subst digits.simps) (simp add: m)
  qed
qed

lemma digits_inj: "digits a = digits b \<Longrightarrow> a = b"
  by (metis foldl_digits)

lemma minus_notin_digits: "CHR ''-'' \<notin> set (digits n)"
proof (induction n rule: digits.induct)
  case (1 n)
  have ne: "char_of (48 + k) \<noteq> CHR ''-''" if "k < 10" for k :: nat
  proof
    assume "char_of (48 + k) = CHR ''-''"
    then have "of_char (char_of (48 + k)) = (of_char CHR ''-'' :: nat)" by simp
    with that show False by simp
  qed
  show ?case
  proof (cases "n < 10")
    case True
    then show ?thesis by (subst digits.simps) (simp add: ne ne [THEN not_sym])
  next
    case False
    with 1 show ?thesis by (subst digits.simps) (simp add: ne ne [THEN not_sym])
  qed
qed

lemma digits_not_Nil: "digits n \<noteq> []"
  by (subst digits.simps) simp

lemma QString_number_inj: "QString_number a = QString_number b \<Longrightarrow> a = b"
proof -
  assume eq: "QString_number a = QString_number b"
  have hd: "hd (digits n) \<noteq> CHR ''-''" for n
    using minus_notin_digits [of n] digits_not_Nil [of n] by (cases "digits n") auto
  show ?thesis
  proof (cases "a < 0")
    case True
    show ?thesis
    proof (cases "b < 0")
      case T2: True
      with True eq have "digits (nat (- a)) = digits (nat (- b))"
        by (simp add: QString_number_def)
      then have "nat (- a) = nat (- b)" by (rule digits_inj)
      with True T2 show ?thesis by simp
    next
      case False
      with True eq have "CHR ''-'' # digits (nat (- a)) = digits (nat b)"
        by (simp add: QString_number_def)
      then have "hd (digits (nat b)) = CHR ''-''" by (metis list.sel(1))
      with hd show ?thesis by simp
    qed
  next
    case False
    show ?thesis
    proof (cases "b < 0")
      case True
      with False eq have "digits (nat a) = CHR ''-'' # digits (nat (- b))"
        by (simp add: QString_number_def)
      then have "hd (digits (nat a)) = CHR ''-''" by simp
      with hd show ?thesis by simp
    next
      case F2: False
      with False eq have "digits (nat a) = digits (nat b)"
        by (simp add: QString_number_def)
      then have "nat a = nat b" by (rule digits_inj)
      with False F2 show ?thesis by simp
    qed
  qed
qed

text \<open>
  C8. With a dock widget, \<open>saveState\<close> appends exactly one element to the output: the
  start of a \<^verbatim>\<open>Widget\<close> element, the attribute \<^verbatim>\<open>Name\<close> with the object name of the dock
  widget, the attribute \<^verbatim>\<open>Closed\<close> with 1 for a closed dock widget and 0 otherwise, the
  attribute \<^verbatim>\<open>Size\<close> with the decimal form of the tracked width for the left and right
  side bars and of the tracked height otherwise, and the end of the element. Different
  numbers have different decimal forms.
\<close>

theorem saveState_spec:
  "(\<forall>w. DockWidget c = Some w \<longrightarrow>
      saveState c s =
        Inr (s @ [StartElement ''Widget'',
                  Attribute ''Name'' (dw_objectName w),
                  Attribute ''Closed'' (if isClosed w then ''1'' else ''0''),
                  Attribute ''Size''
                    (QString_number
                       (if sideBarLocation c = SideBarLeft \<or> sideBarLocation c = SideBarRight
                        then width (Size c) else height (Size c))),
                  EndElement])) \<and>
   (\<forall>a b. QString_number a = QString_number b \<longrightarrow> a = b)"
proof (intro conjI allI impI)
  fix w assume "DockWidget c = Some w"
  then show "saveState c s =
        Inr (s @ [StartElement ''Widget'',
                  Attribute ''Name'' (dw_objectName w),
                  Attribute ''Closed'' (if isClosed w then ''1'' else ''0''),
                  Attribute ''Size''
                    (QString_number
                       (if sideBarLocation c = SideBarLeft \<or> sideBarLocation c = SideBarRight
                        then width (Size c) else height (Size c))),
                  EndElement])"
    by (cases "SideTabBarArea c")
       (simp_all add: saveState_def isHorizontal_def sideBarLocation_def QString_number_0
        QString_number_1)
next
  fix a b assume "QString_number a = QString_number b"
  then show "a = b" by (rule QString_number_inj)
qed

theorem saveState_spec_witness:
  "DockWidget (ex_container SideBarLeft) = Some ex_dockWidget \<and>
   saveState (ex_container SideBarLeft) [] =
     Inr [StartElement ''Widget'', Attribute ''Name'' ''dock1'', Attribute ''Closed'' ''0'',
          Attribute ''Size'' ''316'', EndElement] \<and>
   DockWidget (ex_container SideBarTop) = Some ex_dockWidget \<and>
   saveState (ex_container SideBarTop) [] =
     Inr [StartElement ''Widget'', Attribute ''Name'' ''dock1'', Attribute ''Closed'' ''0'',
          Attribute ''Size'' ''216'', EndElement]"
proof -
  have n: "QString_number 316 = ''316''" "QString_number 216 = ''216''"
    by code_simp+
  show ?thesis
    using saveState_spec [of "ex_container SideBarLeft" "[]", THEN conjunct1, rule_format,
        OF ex_DockWidget]
      saveState_spec [of "ex_container SideBarTop" "[]", THEN conjunct1, rule_format,
        OF ex_DockWidget]
    by (simp add: ex_DockWidget ex_sideBarLocation ex_Size ex_dockWidget_def n)
qed

end
